theory Spec2Isabelle
  imports Main
begin

section \<open>Data model\<close>

text \<open>
  The shop keeps its state in relational tables that the Python code reads and writes
  through SQL statements. A table is a list of rows in insertion order, a row is a record,
  a nullable column is an \<open>option\<close>. \<^verbatim>\<open>convert_days\<close> of \<^verbatim>\<open>carts.py\<close> names
  the seven price and sold columns of a potion; they are indexed by \<open>day\<close> here, so that
  \<^verbatim>\<open>getattr(potion, day + "_price")\<close> is \<open>price potion day\<close>.
\<close>

datatype day = Mon | Tue | Wed | Thu | Fri | Sat | Sun

record cart =
  cart_id :: int
  customer :: string
  payment :: "string option"
  global_inventory_transaction_id :: "int option"

record cart_item =
  items_id :: int
  item_cart_id :: int
  item_sku :: string
  quantity :: int

record potion =
  sku :: string
  potion_type :: "int list"
  price :: "day \<Rightarrow> int"
  sold :: "day \<Rightarrow> int"

record potion_transaction =
  pt_id :: int
  pt_description :: "string option"

record potion_entry =
  potion_sku :: string
  change :: int
  potion_transaction_id :: int

record global_inventory_transaction =
  git_id :: int
  git_description :: "string option"

record global_inventory_entry =
  change_gold :: int
  gie_transaction_id :: int

text \<open>
  The tables that \<^verbatim>\<open>carts.py\<close> uses are not declared in the sources; the columns
  above are the ones its statements name. Generated keys (\<^verbatim>\<open>cart_id\<close>,
  \<^verbatim>\<open>items_id\<close> and the two transaction ids, all read back with \<^verbatim>\<open>RETURNING\<close>)
  come from one counter per table. \<^verbatim>\<open>sku\<close> is taken to be the key of
  \<^verbatim>\<open>potions\<close>; no uniqueness constraint on \<^verbatim>\<open>cart_items\<close> is assumed.
\<close>

record database =
  carts :: "cart list"
  cart_items :: "cart_item list"
  potions :: "potion list"
  potion_transactions :: "potion_transaction list"
  potion_entries :: "potion_entry list"
  global_inventory_transactions :: "global_inventory_transaction list"
  global_inventory_entries :: "global_inventory_entry list"
  carts_seq :: int
  cart_items_seq :: int
  potion_transactions_seq :: int
  global_inventory_transactions_seq :: int

text \<open>
  The Python exceptions the modelled paths can raise. None of them is caught, and every
  statement of a request runs inside \<^verbatim>\<open>with db.engine.begin()\<close>, so a raised
  exception rolls the request's writes back: a failing operation returns \<open>Inl\<close> and no
  database. \<open>CartNotFound\<close> and \<open>CartAlreadySettled\<close> are the kinds of the
  specification's error taxonomy; no path of the source constructs them.
\<close>

datatype error =
    AttributeError
  | ValueError
  | DataError
  | CartNotFound
  | CartAlreadySettled

section \<open>Rendering of Python values\<close>

definition digit_char :: "nat \<Rightarrow> char" where
  "digit_char d = char_of (48 + d)"

fun str_nat :: "nat \<Rightarrow> string" where
  "str_nat n = (if n < 10 then [digit_char n] else str_nat (n div 10) @ [digit_char (n mod 10)])"

declare str_nat.simps [simp del]

text \<open>\<^verbatim>\<open>str(n)\<close> of a Python int.\<close>

definition str_int :: "int \<Rightarrow> string" where
  "str_int i = (if i < 0 then CHR ''-'' # str_nat (nat (- i)) else str_nat (nat i))"

text \<open>\<^verbatim>\<open>str(xs)\<close> of a Python list of ints, as an f-string renders it.\<close>

fun join_ints :: "int list \<Rightarrow> string" where
  "join_ints [] = []"
| "join_ints [x] = str_int x"
| "join_ints (x # y # ys) = str_int x @ '', '' @ join_ints (y # ys)"

definition str_int_list :: "int list \<Rightarrow> string" where
  "str_int_list xs = ''['' @ join_ints xs @ '']''"

section \<open>Rendering a cart: \<^verbatim>\<open>get_cart\<close>\<close>

text \<open>
  The per-item query of \<^verbatim>\<open>get_cart\<close>: the potion's price of the day, its type and
  \<^verbatim>\<open>COALESCE(SUM(change), 0)\<close> over its ledger entries; \<^verbatim>\<open>first()\<close> is
  \<open>None\<close> when no potion has the sku.
\<close>

definition num_potion :: "database \<Rightarrow> string \<Rightarrow> int" where
  "num_potion db s = sum_list (map change (filter (\<lambda>e. potion_sku e = s) (potion_entries db)))"

definition select_potion :: "database \<Rightarrow> string \<Rightarrow> potion option" where
  "select_potion db s = find (\<lambda>p. sku p = s) (potions db)"

definition select_cart :: "database \<Rightarrow> int \<Rightarrow> cart option" where
  "select_cart db cid = find (\<lambda>c. cart_id c = cid) (carts db)"

definition select_cart_items :: "database \<Rightarrow> int \<Rightarrow> cart_item list" where
  "select_cart_items db cid = filter (\<lambda>i. item_cart_id i = cid) (cart_items db)"

definition item_phrase :: "cart_item \<Rightarrow> int \<Rightarrow> int list \<Rightarrow> int \<Rightarrow> string" where
  "item_phrase ci pr ty remaining =
     '' '' @ str_int (quantity ci) @ '' '' @ item_sku ci @ '' ('' @ str_int_list ty @ '') ''
     @ ''for '' @ str_int (quantity ci * pr) @ '' gold ''
     @ ''('' @ str_int remaining @ '' remaining),''"

text \<open>
  The loop over the cart's items. \<^verbatim>\<open>potion.potion_type\<close> on a missing potion raises
  \<^verbatim>\<open>AttributeError\<close>.
\<close>

fun render_items :: "day \<Rightarrow> database \<Rightarrow> cart_item list \<Rightarrow> string \<Rightarrow> error + string" where
  "render_items d db [] message = Inr message"
| "render_items d db (ci # cis) message =
     (case select_potion db (item_sku ci) of
        None \<Rightarrow> Inl AttributeError
      | Some p \<Rightarrow>
          render_items d db cis
            (message @ item_phrase ci (price p d) (potion_type p) (num_potion db (item_sku ci))))"

definition not_created_phrase :: "int \<Rightarrow> string" where
  "not_created_phrase cid = ''Cart #'' @ str_int cid @ '' has not yet been created.''"

definition settled_phrase :: "cart \<Rightarrow> string \<Rightarrow> string" where
  "settled_phrase c pay =
     ''Cart #'' @ str_int (cart_id c) @ '': '' @ customer c @ '' used '' @ pay @ '' to buy:''"

definition staged_phrase :: "cart \<Rightarrow> string" where
  "staged_phrase c =
     ''Cart #'' @ str_int (cart_id c) @ '': '' @ customer c @ '' is seeking to buy:''"

text \<open>
  \<^verbatim>\<open>if cart.payment:\<close> is Python truthiness: a \<^verbatim>\<open>NULL\<close> payment and the empty
  string both take the \<^verbatim>\<open>else\<close> branch.
\<close>

definition cart_heading :: "cart \<Rightarrow> string" where
  "cart_heading c =
     (case payment c of
        None \<Rightarrow> staged_phrase c
      | Some pay \<Rightarrow> if pay \<noteq> [] then settled_phrase c pay else staged_phrase c)"

text \<open>
  \<^verbatim>\<open>get_cart\<close> returns a string, or falls off the end of the function (Python
  \<^verbatim>\<open>None\<close>, here \<open>Inr None\<close>) when the cart exists and has no item rows.
  \<^verbatim>\<open>message[:-1] + "."\<close> replaces the last comma.
\<close>

definition get_cart :: "day \<Rightarrow> database \<Rightarrow> int \<Rightarrow> error + string option" where
  "get_cart d db cid =
     (case select_cart db cid of
        Some c \<Rightarrow>
          (let items = select_cart_items db cid in
           if items \<noteq> [] then
             (case render_items d db items (cart_heading c) of
                Inl e \<Rightarrow> Inl e
              | Inr message \<Rightarrow> Inr (Some (butlast message @ ''.'')))
           else Inr None)
      | None \<Rightarrow> Inr (Some (not_created_phrase cid)))"

section \<open>Building a cart\<close>

text \<open>
  \<^verbatim>\<open>create_cart\<close> inserts a row with the customer only; payment and transaction
  reference stay \<^verbatim>\<open>NULL\<close>. It returns the generated \<^verbatim>\<open>cart_id\<close>.
\<close>

definition create_cart :: "database \<Rightarrow> string \<Rightarrow> int \<times> database" where
  "create_cart db cust =
     (carts_seq db,
      db\<lparr>carts := carts db @
           [\<lparr>cart_id = carts_seq db, customer = cust, payment = None,
             global_inventory_transaction_id = None\<rparr>],
         carts_seq := carts_seq db + 1\<rparr>)"

text \<open>
  \<^verbatim>\<open>set_item_quantity\<close> is a plain \<^verbatim>\<open>INSERT INTO cart_items\<close>: there is no
  \<^verbatim>\<open>ON CONFLICT\<close> clause and no preceding \<^verbatim>\<open>UPDATE\<close> or \<^verbatim>\<open>DELETE\<close>,
  so every call adds a row.
\<close>

definition set_item_quantity :: "database \<Rightarrow> int \<Rightarrow> string \<Rightarrow> int \<Rightarrow> string \<times> database" where
  "set_item_quantity db cid s q =
     (''OK'',
      db\<lparr>cart_items := cart_items db @
           [\<lparr>items_id = cart_items_seq db, item_cart_id = cid, item_sku = s, quantity = q\<rparr>],
         cart_items_seq := cart_items_seq db + 1\<rparr>)"

section \<open>Checkout\<close>

record checkout_result =
  total_potions_bought :: int
  total_gold_paid :: int

text \<open>
  The first statement of \<^verbatim>\<open>checkout\<close>: the \<^verbatim>\<open>WITH\<close> part inserts a global
  transaction with default values whether or not a cart matches, the \<^verbatim>\<open>UPDATE\<close>
  sets payment and transaction reference of every cart with the id and returns one row
  per updated cart.
\<close>

definition insert_global_inventory_transaction :: "database \<Rightarrow> int \<times> database" where
  "insert_global_inventory_transaction db =
     (global_inventory_transactions_seq db,
      db\<lparr>global_inventory_transactions := global_inventory_transactions db @
           [\<lparr>git_id = global_inventory_transactions_seq db, git_description = None\<rparr>],
         global_inventory_transactions_seq := global_inventory_transactions_seq db + 1\<rparr>)"

definition update_cart_payment :: "database \<Rightarrow> int \<Rightarrow> string \<Rightarrow> int \<Rightarrow> int list \<times> database" where
  "update_cart_payment db cid pay t =
     (map (\<lambda>c. t) (filter (\<lambda>c. cart_id c = cid) (carts db)),
      db\<lparr>carts := map (\<lambda>c. if cart_id c = cid
                            then c\<lparr>payment := Some pay, global_inventory_transaction_id := Some t\<rparr>
                            else c) (carts db)\<rparr>)"

text \<open>The two writes of the loop body, for one cart item.\<close>

definition insert_potion_entry :: "database \<Rightarrow> string option \<Rightarrow> string \<Rightarrow> int \<Rightarrow> database" where
  "insert_potion_entry db description s c =
     db\<lparr>potion_transactions := potion_transactions db @
          [\<lparr>pt_id = potion_transactions_seq db, pt_description = description\<rparr>],
        potion_entries := potion_entries db @
          [\<lparr>potion_sku = s, change = c, potion_transaction_id = potion_transactions_seq db\<rparr>],
        potion_transactions_seq := potion_transactions_seq db + 1\<rparr>"

definition update_sold :: "database \<Rightarrow> day \<Rightarrow> string \<Rightarrow> int \<Rightarrow> database" where
  "update_sold db d s num_sold =
     db\<lparr>potions := map (\<lambda>p. if sku p = s then p\<lparr>sold := (sold p)(d := sold p d + num_sold)\<rparr> else p)
                        (potions db)\<rparr>"

text \<open>
  \<^verbatim>\<open>get_cart(cart_id)\<close>, called for the description parameters, opens a connection
  of its own (\<^verbatim>\<open>with db.engine.begin()\<close> inside \<^verbatim>\<open>get_cart\<close>) while the
  transaction of \<^verbatim>\<open>checkout\<close> is still open. The statements of \<^verbatim>\<open>checkout\<close>
  are not committed at that point, and a second connection reads committed rows only, so
  \<^verbatim>\<open>get_cart\<close> renders the database as it was when the checkout began. The loop
  therefore carries two databases: \<open>committed\<close>, which \<^verbatim>\<open>get_cart\<close> reads, and the
  working copy \<open>w\<close> of the open transaction, which the statements of \<^verbatim>\<open>checkout\<close>
  read and write. Requests of other clients are not interleaved.

  \<^verbatim>\<open>getattr(potion, day + "_price")\<close> on a missing potion raises
  \<^verbatim>\<open>AttributeError\<close>.
\<close>

fun checkout_items ::
  "day \<Rightarrow> database \<Rightarrow> int \<Rightarrow> cart_item list \<Rightarrow> int \<times> int \<times> database \<Rightarrow> error + (int \<times> int \<times> database)"
where
  "checkout_items d committed cid [] acc = Inr acc"
| "checkout_items d committed cid (ci # cis) (bought, paid, w) =
     (case select_potion w (item_sku ci) of
        None \<Rightarrow> Inl AttributeError
      | Some p \<Rightarrow>
          (case get_cart d committed cid of
             Inl e \<Rightarrow> Inl e
           | Inr description \<Rightarrow>
               checkout_items d committed cid cis
                 (bought + quantity ci,
                  paid + quantity ci * price p d,
                  update_sold
                    (insert_potion_entry w description (item_sku ci) (- quantity ci))
                    d (item_sku ci) (quantity ci))))"

definition update_description :: "database \<Rightarrow> string option \<Rightarrow> int \<Rightarrow> database" where
  "update_description db description t =
     db\<lparr>global_inventory_transactions :=
          map (\<lambda>g. if git_id g = t then g\<lparr>git_description := description\<rparr> else g)
            (global_inventory_transactions db)\<rparr>"

definition insert_gold_entry :: "database \<Rightarrow> int \<Rightarrow> int \<Rightarrow> database" where
  "insert_gold_entry db gold t =
     db\<lparr>global_inventory_entries := global_inventory_entries db @
          [\<lparr>change_gold = gold, gie_transaction_id = t\<rparr>]\<rparr>"

text \<open>
  \<^verbatim>\<open>.first().id\<close> on the rows the \<^verbatim>\<open>UPDATE\<close> returns raises
  \<^verbatim>\<open>AttributeError\<close> when no cart has the id. The argument \<open>db\<close> is the committed
  database; the result on success is the committed database after \<^verbatim>\<open>commit()\<close>.
\<close>

definition checkout ::
  "day \<Rightarrow> database \<Rightarrow> int \<Rightarrow> string \<Rightarrow> error + (checkout_result \<times> database)"
where
  "checkout d db cid pay =
     (let (t, w0) = insert_global_inventory_transaction db;
          (returned, w1) = update_cart_payment w0 cid pay t
      in case returned of
           [] \<Rightarrow> Inl AttributeError
         | global_transaction_id # _ \<Rightarrow>
             (case checkout_items d db cid (select_cart_items w1 cid) (0, 0, w1) of
                Inl e \<Rightarrow> Inl e
              | Inr (bought, paid, w2) \<Rightarrow>
                  (case get_cart d db cid of
                     Inl e \<Rightarrow> Inl e
                   | Inr description \<Rightarrow>
                       Inr (\<lparr>total_potions_bought = bought, total_gold_paid = paid\<rparr>,
                            insert_gold_entry
                              (update_description w2 description global_transaction_id)
                              paid global_transaction_id))))"

text \<open>A run of checkouts, each committed before the next begins; it stops at the first failure.\<close>

fun checkouts :: "database \<Rightarrow> (day \<times> int \<times> string) list \<Rightarrow> error + database" where
  "checkouts db [] = Inr db"
| "checkouts db ((d, cid, pay) # rest) =
     (case checkout d db cid pay of
        Inl e \<Rightarrow> Inl e
      | Inr (r, db') \<Rightarrow> checkouts db' rest)"

section \<open>Catalog\<close>









section \<open>Search\<close>

text \<open>
  \<^verbatim>\<open>int(search_page)\<close>: surrounding white space, an optional sign, and decimal digits
  with single underscores between them; anything else raises \<^verbatim>\<open>ValueError\<close>.
  Strings are byte strings here, so digits and white space outside ASCII are not covered.
  Python's limit on the number of digits is not modelled: a cursor that long fails in
  either case, in \<^verbatim>\<open>int\<close> or in the database.
\<close>

definition is_space :: "char \<Rightarrow> bool" where
  "is_space c = (c \<in> {CHR '' '', CHR 0x09, CHR 0x0A, CHR 0x0B, CHR 0x0C, CHR 0x0D})"

definition is_digit :: "char \<Rightarrow> bool" where
  "is_digit c = ((48 :: nat) \<le> of_char c \<and> of_char c \<le> (57 :: nat))"

definition digit_val :: "char \<Rightarrow> nat" where
  "digit_val c = of_char c - (48 :: nat)"

fun digits_acc :: "nat \<Rightarrow> string \<Rightarrow> nat option" where
  "digits_acc n [] = Some n"
| "digits_acc n [c] = (if is_digit c then Some (10 * n + digit_val c) else None)"
| "digits_acc n (c # c' # cs) =
     (if is_digit c then digits_acc (10 * n + digit_val c) (c' # cs)
      else if c = CHR ''_'' \<and> is_digit c' then digits_acc n (c' # cs)
      else None)"

definition py_digits :: "string \<Rightarrow> nat option" where
  "py_digits s = (case s of [] \<Rightarrow> None | c # cs \<Rightarrow> if is_digit c then digits_acc 0 s else None)"

definition strip :: "string \<Rightarrow> string" where
  "strip s = rev (dropWhile is_space (rev (dropWhile is_space s)))"

definition py_int :: "string \<Rightarrow> int option" where
  "py_int s =
     (case strip s of
        [] \<Rightarrow> None
      | c # cs \<Rightarrow>
          if c = CHR ''-'' then map_option (\<lambda>n. - int n) (py_digits cs)
          else if c = CHR ''+'' then map_option int (py_digits cs)
          else map_option int (py_digits (c # cs)))"

record order_row =
  line_item_id :: int
  row_item_sku :: string
  customer_name :: string
  line_item_total :: int
  timestamp :: nat

text \<open>The loop that copies at most five of the fetched rows.\<close>

fun collect_results :: "order_row list \<Rightarrow> order_row list \<Rightarrow> order_row list" where
  "collect_results [] res = res"
| "collect_results (item # items) res =
     collect_results items (if length res < 5 then res @ [item] else res)"

record search_response =
  previous :: string
  "next" :: string
  results :: "order_row list"

text \<open>
  \<^verbatim>\<open>search_orders\<close>. The join, the \<^verbatim>\<open>WHERE\<close> filter and the \<^verbatim>\<open>ORDER BY\<close>
  are evaluated by the database from text the request's strings are pasted into; their
  result, the matching line items in the requested order, is the argument \<open>matching\<close>.
  \<^verbatim>\<open>LIMIT 6 OFFSET current\<close> and the Python code after the query are modelled. The
  database rejects a negative \<^verbatim>\<open>OFFSET\<close> and one beyond its 64-bit integers.
\<close>

definition search_orders :: "order_row list \<Rightarrow> string \<Rightarrow> error + search_response" where
  "search_orders matching search_page =
     (case (if search_page = [] then Some 0 else py_int search_page) of
        None \<Rightarrow> Inl ValueError
      | Some current \<Rightarrow>
          if current < 0 \<or> 9223372036854775807 < current then Inl DataError
          else
            (let fetched = take 6 (drop (nat current) matching);
                 res = collect_results fetched [];
                 prev = current - 5;
                 prev = (if prev < 0 then [] else str_int prev);
                 nxt = current + 5;
                 nxt = (if length fetched < 6 then [] else str_int nxt)
             in Inr \<lparr>previous = prev, next = nxt, results = res\<rparr>))"

section \<open>Notions used in the statements\<close>

text \<open>The quantity of a sku in a list of cart items, summed over all its rows.\<close>

definition sold_in :: "cart_item list \<Rightarrow> string \<Rightarrow> int" where
  "sold_in items s = sum_list (map quantity (filter (\<lambda>ci. item_sku ci = s) items))"

text \<open>Quantity times the price column of the day, for one cart item.\<close>

definition line_total :: "day \<Rightarrow> database \<Rightarrow> cart_item \<Rightarrow> int" where
  "line_total d db ci =
     (case select_potion db (item_sku ci) of Some p \<Rightarrow> quantity ci * price p d | None \<Rightarrow> 0)"

text \<open>One pass of the checkout loop on the working database, given the description.\<close>

definition record_sale :: "day \<Rightarrow> string option \<Rightarrow> database \<Rightarrow> cart_item \<Rightarrow> database" where
  "record_sale d description w ci =
     update_sold (insert_potion_entry w description (item_sku ci) (- quantity ci))
       d (item_sku ci) (quantity ci)"

text \<open>
  The transaction row and the entry row the loop writes for the \<open>k\<close>-th cart item, when
  the transaction counter stood at \<open>t\<close> before the loop.
\<close>

definition item_transaction :: "int \<Rightarrow> string option \<Rightarrow> nat \<times> cart_item \<Rightarrow> potion_transaction" where
  "item_transaction t desc = (\<lambda>(k, ci). \<lparr>pt_id = t + int k, pt_description = desc\<rparr>)"

definition item_entry :: "int \<Rightarrow> nat \<times> cart_item \<Rightarrow> potion_entry" where
  "item_entry t = (\<lambda>(k, ci).
     \<lparr>potion_sku = item_sku ci, change = - quantity ci, potion_transaction_id = t + int k\<rparr>)"

text \<open>A potion row after its sold counter of the day has grown by what the cart holds of it.\<close>

definition add_sold :: "day \<Rightarrow> cart_item list \<Rightarrow> potion \<Rightarrow> potion" where
  "add_sold d items p = p\<lparr>sold := (sold p)(d := sold p d + sold_in items (sku p))\<rparr>"

text \<open>The phrase \<^verbatim>\<open>get_cart\<close> appends for one cart item.\<close>

definition potion_phrase :: "day \<Rightarrow> database \<Rightarrow> cart_item \<Rightarrow> string" where
  "potion_phrase d db ci =
     (case select_potion db (item_sku ci) of
        Some p \<Rightarrow> item_phrase ci (price p d) (potion_type p) (num_potion db (item_sku ci))
      | None \<Rightarrow> [])"

text \<open>
  The text after the heading in a rendering: the phrases of the cart's items, the last
  comma replaced by a full stop.
\<close>

definition item_list :: "day \<Rightarrow> database \<Rightarrow> int \<Rightarrow> string" where
  "item_list d db cid =
     butlast (concat (map (potion_phrase d db) (select_cart_items db cid))) @ ''.''"

text \<open>
  The working database after the first statement of \<^verbatim>\<open>checkout\<close>, and the database
  a checkout commits when the rendered description is \<open>desc\<close>.
\<close>

definition begin_checkout :: "database \<Rightarrow> int \<Rightarrow> string \<Rightarrow> database" where
  "begin_checkout db cid pay =
     snd (update_cart_payment (snd (insert_global_inventory_transaction db)) cid pay
            (global_inventory_transactions_seq db))"

definition settle :: "day \<Rightarrow> database \<Rightarrow> int \<Rightarrow> string \<Rightarrow> string option \<Rightarrow> database" where
  "settle d db cid pay desc =
     insert_gold_entry
       (update_description
          (foldl (record_sale d desc) (begin_checkout db cid pay) (select_cart_items db cid))
          desc (global_inventory_transactions_seq db))
       (sum_list (map (line_total d db) (select_cart_items db cid)))
       (global_inventory_transactions_seq db)"

section \<open>Example databases\<close>

text \<open>One potion at 50 gold on every day, and Alice's cart with three of it, not checked out.\<close>

definition red_potion :: potion where
  "red_potion =
     \<lparr>sku = ''RED_POTION'', potion_type = [100, 0, 0, 0], price = (\<lambda>d. 50), sold = (\<lambda>d. 0)\<rparr>"

definition alice_item :: cart_item where
  "alice_item = \<lparr>items_id = 1, item_cart_id = 1, item_sku = ''RED_POTION'', quantity = 3\<rparr>"

definition shop :: database where
  "shop =
     \<lparr>carts = [\<lparr>cart_id = 1, customer = ''Alice'', payment = None,
                global_inventory_transaction_id = None\<rparr>],
      cart_items = [alice_item],
      potions = [red_potion],
      potion_transactions = [],
      potion_entries = [],
      global_inventory_transactions = [],
      global_inventory_entries = [],
      carts_seq = 2, cart_items_seq = 2, potion_transactions_seq = 1,
      global_inventory_transactions_seq = 1\<rparr>"

text \<open>The same shop with no cart at all.\<close>

definition empty_shop :: database where
  "empty_shop =
     \<lparr>carts = [], cart_items = [], potions = [red_potion],
      potion_transactions = [], potion_entries = [],
      global_inventory_transactions = [], global_inventory_entries = [],
      carts_seq = 1, cart_items_seq = 1, potion_transactions_seq = 1,
      global_inventory_transactions_seq = 1\<rparr>"

text \<open>The two renderings of Alice's cart, before and after its checkout on a Monday.\<close>

definition alice_staged :: string where
  "alice_staged =
     ''Cart #1: Alice is seeking to buy: 3 RED_POTION ([100, 0, 0, 0]) for 150 gold (0 remaining).''"

definition alice_settled :: string where
  "alice_settled =
     ''Cart #1: Alice used credit_card to buy: 3 RED_POTION ([100, 0, 0, 0]) for 150 gold (-3 remaining).''"

text \<open>The shop after Alice's cart was checked out with \<^verbatim>\<open>credit_card\<close> on a Monday.\<close>

definition sold_red_potion :: potion where
  "sold_red_potion =
     \<lparr>sku = ''RED_POTION'', potion_type = [100, 0, 0, 0], price = (\<lambda>d. 50),
      sold = (\<lambda>d. if d = Mon then 3 else 0)\<rparr>"

definition settled_shop :: database where
  "settled_shop =
     \<lparr>carts = [\<lparr>cart_id = 1, customer = ''Alice'', payment = Some ''credit_card'',
                global_inventory_transaction_id = Some 1\<rparr>],
      cart_items = [alice_item],
      potions = [sold_red_potion],
      potion_transactions = [\<lparr>pt_id = 1, pt_description = Some alice_staged\<rparr>],
      potion_entries =
        [\<lparr>potion_sku = ''RED_POTION'', change = - 3, potion_transaction_id = 1\<rparr>],
      global_inventory_transactions = [\<lparr>git_id = 1, git_description = Some alice_staged\<rparr>],
      global_inventory_entries = [\<lparr>change_gold = 150, gie_transaction_id = 1\<rparr>],
      carts_seq = 2, cart_items_seq = 2, potion_transactions_seq = 2,
      global_inventory_transactions_seq = 2\<rparr>"

text \<open>Alice's cart with no item rows.\<close>

definition empty_cart_shop :: database where
  "empty_cart_shop =
     \<lparr>carts = [\<lparr>cart_id = 1, customer = ''Alice'', payment = None,
                global_inventory_transaction_id = None\<rparr>],
      cart_items = [],
      potions = [red_potion],
      potion_transactions = [],
      potion_entries = [],
      global_inventory_transactions = [],
      global_inventory_entries = [],
      carts_seq = 2, cart_items_seq = 1, potion_transactions_seq = 1,
      global_inventory_transactions_seq = 1\<rparr>"

text \<open>
  The requests \<^verbatim>\<open>create_cart\<close> for Alice, then \<^verbatim>\<open>set_item_quantity\<close> with 3 and
  again with 5 for the same sku, on the shop without carts.
\<close>

definition twice_set_shop :: database where
  "twice_set_shop =
     snd (set_item_quantity
            (snd (set_item_quantity (snd (create_cart empty_shop ''Alice'')) 1 ''RED_POTION'' 3))
            1 ''RED_POTION'' 5)"

text \<open>Twelve line items that match a search, in the order the query returns them.\<close>

definition twelve_rows :: "order_row list" where
  "twelve_rows =
     map (\<lambda>k. \<lparr>line_item_id = int k, row_item_sku = ''RED_POTION'', customer_name = ''Alice'',
               line_item_total = 150, timestamp = k\<rparr>) [1..<13]"


section \<open>Properties\<close>

subsection \<open>The checkout loop\<close>

lemma select_potion_update_sold:
  "select_potion (update_sold w d s q) s' =
     map_option (\<lambda>p. if sku p = s then p\<lparr>sold := (sold p)(d := sold p d + q)\<rparr> else p)
       (select_potion w s')"
proof -
  have "find (\<lambda>p. sku p = s') (map (\<lambda>p. if sku p = s then p\<lparr>sold := (sold p)(d := sold p d + q)\<rparr> else p) ps)
      = map_option (\<lambda>p. if sku p = s then p\<lparr>sold := (sold p)(d := sold p d + q)\<rparr> else p)
          (find (\<lambda>p. sku p = s') ps)" for ps
    by (induction ps) auto
  then show ?thesis
    by (simp add: select_potion_def update_sold_def)
qed

lemma select_potion_record_sale:
  "select_potion (record_sale d desc w ci) s =
     map_option (\<lambda>p. if sku p = item_sku ci then p\<lparr>sold := (sold p)(d := sold p d + quantity ci)\<rparr> else p)
       (select_potion w s)"
  by (simp add: record_sale_def select_potion_update_sold)
     (simp add: select_potion_def insert_potion_entry_def)

lemma line_total_record_sale [simp]:
  "line_total d (record_sale d desc w ci) ci' = line_total d w ci'"
  by (simp add: line_total_def select_potion_record_sale split: option.splits)

lemma known_record_sale [simp]:
  "(select_potion (record_sale d desc w ci) s = None) = (select_potion w s = None)"
  by (simp add: select_potion_record_sale)

lemma checkout_items_eq:
  "get_cart d cdb cid = Inr desc \<Longrightarrow>
   \<forall>ci\<in>set items. select_potion w (item_sku ci) \<noteq> None \<Longrightarrow>
   checkout_items d cdb cid items (b, g, w) =
     Inr (b + sum_list (map quantity items),
          g + sum_list (map (line_total d w) items),
          foldl (record_sale d desc) w items)"
proof (induction items arbitrary: b g w)
  case Nil
  then show ?case by simp
next
  case (Cons ci cis)
  from Cons.prems obtain p where p: "select_potion w (item_sku ci) = Some p"
    by auto
  have known: "\<forall>c\<in>set cis. select_potion (record_sale d desc w ci) (item_sku c) \<noteq> None"
    using Cons.prems(2) by simp
  show ?case
    using Cons.IH [OF Cons.prems(1) known] p Cons.prems(1)
    by (simp add: record_sale_def [symmetric] line_total_def [of d w ci])
qed

lemma checkout_items_InrD:
  "checkout_items d cdb cid items (b, g, w) = Inr res \<Longrightarrow>
   (\<forall>ci\<in>set items. select_potion w (item_sku ci) \<noteq> None) \<and>
   (items \<noteq> [] \<longrightarrow> (\<exists>desc. get_cart d cdb cid = Inr desc))"
proof (induction items arbitrary: b g w)
  case Nil
  then show ?case by simp
next
  case (Cons ci cis)
  from Cons.prems obtain p desc where p: "select_potion w (item_sku ci) = Some p"
    and desc: "get_cart d cdb cid = Inr desc"
    by (auto split: option.splits sum.splits)
  with Cons.prems have
    "checkout_items d cdb cid cis
       (b + quantity ci, g + quantity ci * price p d, record_sale d desc w ci) = Inr res"
    by (simp add: record_sale_def)
  from Cons.IH [OF this] p desc show ?case by simp
qed

lemma record_sale_frame [simp]:
  "carts (record_sale d desc w ci) = carts w"
  "cart_items (record_sale d desc w ci) = cart_items w"
  "global_inventory_transactions (record_sale d desc w ci) = global_inventory_transactions w"
  "global_inventory_entries (record_sale d desc w ci) = global_inventory_entries w"
  "carts_seq (record_sale d desc w ci) = carts_seq w"
  "cart_items_seq (record_sale d desc w ci) = cart_items_seq w"
  "global_inventory_transactions_seq (record_sale d desc w ci) = global_inventory_transactions_seq w"
  by (simp_all add: record_sale_def update_sold_def insert_potion_entry_def)

lemma record_sale_ledger [simp]:
  "potion_transactions_seq (record_sale d desc w ci) = potion_transactions_seq w + 1"
  "potion_transactions (record_sale d desc w ci) =
     potion_transactions w @ [\<lparr>pt_id = potion_transactions_seq w, pt_description = desc\<rparr>]"
  "potion_entries (record_sale d desc w ci) =
     potion_entries w @
       [\<lparr>potion_sku = item_sku ci, change = - quantity ci,
         potion_transaction_id = potion_transactions_seq w\<rparr>]"
  "potions (record_sale d desc w ci) =
     map (\<lambda>p. if sku p = item_sku ci then p\<lparr>sold := (sold p)(d := sold p d + quantity ci)\<rparr> else p)
       (potions w)"
  by (simp_all add: record_sale_def update_sold_def insert_potion_entry_def)

lemma foldl_record_sale_frame [simp]:
  "carts (foldl (record_sale d desc) w items) = carts w"
  "cart_items (foldl (record_sale d desc) w items) = cart_items w"
  "global_inventory_transactions (foldl (record_sale d desc) w items) = global_inventory_transactions w"
  "global_inventory_entries (foldl (record_sale d desc) w items) = global_inventory_entries w"
  "carts_seq (foldl (record_sale d desc) w items) = carts_seq w"
  "cart_items_seq (foldl (record_sale d desc) w items) = cart_items_seq w"
  "global_inventory_transactions_seq (foldl (record_sale d desc) w items) = global_inventory_transactions_seq w"
  by (induction items arbitrary: w; simp)+

lemma foldl_record_sale_seq [simp]:
  "potion_transactions_seq (foldl (record_sale d desc) w items) =
     potion_transactions_seq w + int (length items)"
  by (induction items arbitrary: w) simp_all

lemma item_transaction_shift:
  "map (item_transaction t desc) (enumerate (Suc n) cis) =
   map (item_transaction (t + 1) desc) (enumerate n cis)"
  by (induction cis arbitrary: n) (simp_all add: item_transaction_def)

lemma item_entry_shift:
  "map (item_entry t) (enumerate (Suc n) cis) = map (item_entry (t + 1)) (enumerate n cis)"
  by (induction cis arbitrary: n) (simp_all add: item_entry_def)

lemma foldl_record_sale_transactions:
  "potion_transactions (foldl (record_sale d desc) w items) =
     potion_transactions w @
       map (item_transaction (potion_transactions_seq w) desc) (enumerate 0 items)"
proof (induction items arbitrary: w)
  case Nil
  then show ?case by simp
next
  case (Cons ci cis)
  show ?case
    by (simp add: Cons.IH item_transaction_shift) (simp add: item_transaction_def)
qed

lemma foldl_record_sale_entries:
  "potion_entries (foldl (record_sale d desc) w items) =
     potion_entries w @ map (item_entry (potion_transactions_seq w)) (enumerate 0 items)"
proof (induction items arbitrary: w)
  case Nil
  then show ?case by simp
next
  case (Cons ci cis)
  show ?case
    by (simp add: Cons.IH item_entry_shift) (simp add: item_entry_def)
qed

lemma add_sold_Nil [simp]: "add_sold d [] p = p"
  by (simp add: add_sold_def sold_in_def)

lemma add_sold_Cons:
  "sku p = item_sku ci \<Longrightarrow>
     add_sold d cis (p\<lparr>sold := (sold p)(d := sold p d + quantity ci)\<rparr>) = add_sold d (ci # cis) p"
  "sku p \<noteq> item_sku ci \<Longrightarrow> add_sold d cis p = add_sold d (ci # cis) p"
  by (simp_all add: add_sold_def sold_in_def add.assoc)

lemma foldl_record_sale_potions:
  "potions (foldl (record_sale d desc) w items) = map (add_sold d items) (potions w)"
proof (induction items arbitrary: w)
  case Nil
  then show ?case by simp
next
  case (Cons ci cis)
  have "add_sold d cis (if sku p = item_sku ci
          then p\<lparr>sold := (sold p)(d := sold p d + quantity ci)\<rparr> else p) = add_sold d (ci # cis) p" for p
    using add_sold_Cons [of p ci d cis] by simp
  then show ?case
    by (simp add: Cons.IH o_def)
qed

lemma num_potion_foldl_record_sale:
  "num_potion (foldl (record_sale d desc) w items) s = num_potion w s - sold_in items s"
  by (induction items arbitrary: w) (simp_all add: num_potion_def sold_in_def)

lemma render_items_known:
  "\<forall>ci\<in>set items. select_potion db (item_sku ci) \<noteq> None \<Longrightarrow>
   render_items d db items message = Inr (message @ concat (map (potion_phrase d db) items))"
  by (induction items arbitrary: message) (auto simp: potion_phrase_def)

lemma render_items_InrD:
  "render_items d db items message = Inr m \<Longrightarrow>
   \<forall>ci\<in>set items. select_potion db (item_sku ci) \<noteq> None"
  by (induction items arbitrary: message) (auto split: option.splits)

lemma get_cart_known:
  "\<forall>ci\<in>set (select_cart_items db cid). select_potion db (item_sku ci) \<noteq> None \<Longrightarrow>
   \<exists>desc. get_cart d db cid = Inr desc"
  by (simp add: get_cart_def Let_def render_items_known split: option.splits)

lemma begin_checkout_fields [simp]:
  "cart_items (begin_checkout db cid pay) = cart_items db"
  "potions (begin_checkout db cid pay) = potions db"
  "potion_transactions (begin_checkout db cid pay) = potion_transactions db"
  "potion_entries (begin_checkout db cid pay) = potion_entries db"
  "global_inventory_entries (begin_checkout db cid pay) = global_inventory_entries db"
  "potion_transactions_seq (begin_checkout db cid pay) = potion_transactions_seq db"
  "carts_seq (begin_checkout db cid pay) = carts_seq db"
  "cart_items_seq (begin_checkout db cid pay) = cart_items_seq db"
  "global_inventory_transactions_seq (begin_checkout db cid pay) =
     global_inventory_transactions_seq db + 1"
  "global_inventory_transactions (begin_checkout db cid pay) =
     global_inventory_transactions db @
       [\<lparr>git_id = global_inventory_transactions_seq db, git_description = None\<rparr>]"
  "carts (begin_checkout db cid pay) =
     map (\<lambda>c. if cart_id c = cid
               then c\<lparr>payment := Some pay,
                      global_inventory_transaction_id := Some (global_inventory_transactions_seq db)\<rparr>
               else c) (carts db)"
  by (simp_all add: begin_checkout_def update_cart_payment_def
        insert_global_inventory_transaction_def)

lemma begin_checkout_select [simp]:
  "select_cart_items (begin_checkout db cid pay) cid' = select_cart_items db cid'"
  "select_potion (begin_checkout db cid pay) s = select_potion db s"
  "line_total d (begin_checkout db cid pay) = line_total d db"
  "num_potion (begin_checkout db cid pay) s = num_potion db s"
  by (simp_all add: select_cart_items_def select_potion_def line_total_def num_potion_def fun_eq_iff)

lemma checkout_unknown_cart:
  "cid \<notin> cart_id ` set (carts db) \<Longrightarrow> checkout d db cid pay = Inl AttributeError"
proof -
  assume "cid \<notin> cart_id ` set (carts db)"
  then have "filter (\<lambda>c. cart_id c = cid) (carts db) = []"
    by (auto simp: filter_empty_conv)
  then show ?thesis
    by (simp add: checkout_def update_cart_payment_def insert_global_inventory_transaction_def)
qed

lemma checkout_known_cart:
  assumes "cid \<in> cart_id ` set (carts db)"
  shows "checkout d db cid pay =
     (case checkout_items d db cid (select_cart_items db cid) (0, 0, begin_checkout db cid pay) of
        Inl e \<Rightarrow> Inl e
      | Inr (bought, paid, w2) \<Rightarrow>
          (case get_cart d db cid of
             Inl e \<Rightarrow> Inl e
           | Inr description \<Rightarrow>
               Inr (\<lparr>total_potions_bought = bought, total_gold_paid = paid\<rparr>,
                    insert_gold_entry
                      (update_description w2 description (global_inventory_transactions_seq db))
                      paid (global_inventory_transactions_seq db))))"
proof -
  from assms obtain c cs where "filter (\<lambda>c. cart_id c = cid) (carts db) = c # cs"
    by (cases "filter (\<lambda>c. cart_id c = cid) (carts db)") (auto simp: filter_empty_conv)
  then show ?thesis
    using begin_checkout_select(1) [of db cid pay cid]
    by (simp add: checkout_def begin_checkout_def update_cart_payment_def
          insert_global_inventory_transaction_def)
qed

lemma checkout_success:
  assumes "cid \<in> cart_id ` set (carts db)"
    and "get_cart d db cid = Inr desc"
    and "\<forall>ci\<in>set (select_cart_items db cid). select_potion db (item_sku ci) \<noteq> None"
  shows "checkout d db cid pay =
     Inr (\<lparr>total_potions_bought = sum_list (map quantity (select_cart_items db cid)),
           total_gold_paid = sum_list (map (line_total d db) (select_cart_items db cid))\<rparr>,
          settle d db cid pay desc)"
proof -
  have "\<forall>ci\<in>set (select_cart_items db cid).
          select_potion (begin_checkout db cid pay) (item_sku ci) \<noteq> None"
    using assms(3) by simp
  from checkout_items_eq [OF assms(2) this, of 0 0]
  show ?thesis
    by (simp add: checkout_known_cart [OF assms(1)] assms(2) settle_def)
qed

lemma checkout_InrD:
  assumes "checkout d db cid pay = Inr (r, db')"
  shows "cid \<in> cart_id ` set (carts db)"
    and "\<forall>ci\<in>set (select_cart_items db cid). select_potion db (item_sku ci) \<noteq> None"
    and "\<exists>desc. get_cart d db cid = Inr desc"
proof -
  show c: "cid \<in> cart_id ` set (carts db)"
    using assms checkout_unknown_cart [of cid db d pay] by auto
  from assms obtain res where
    items: "checkout_items d db cid (select_cart_items db cid) (0, 0, begin_checkout db cid pay) = Inr res"
    and "\<exists>desc. get_cart d db cid = Inr desc"
    by (auto simp: checkout_known_cart [OF c] split: sum.splits)
  then show "\<exists>desc. get_cart d db cid = Inr desc" by simp
  from checkout_items_InrD [OF items]
  show "\<forall>ci\<in>set (select_cart_items db cid). select_potion db (item_sku ci) \<noteq> None"
    by simp
qed

lemma checkout_Inr_settle:
  assumes "checkout d db cid pay = Inr (r, db')"
  obtains desc where "get_cart d db cid = Inr desc"
    and "r = \<lparr>total_potions_bought = sum_list (map quantity (select_cart_items db cid)),
              total_gold_paid = sum_list (map (line_total d db) (select_cart_items db cid))\<rparr>"
    and "db' = settle d db cid pay desc"
proof -
  from checkout_InrD(3) [OF assms] obtain desc where desc: "get_cart d db cid = Inr desc" ..
  from checkout_success [OF checkout_InrD(1) [OF assms] desc checkout_InrD(2) [OF assms], of pay] assms
  have "r = \<lparr>total_potions_bought = sum_list (map quantity (select_cart_items db cid)),
              total_gold_paid = sum_list (map (line_total d db) (select_cart_items db cid))\<rparr>"
    and "db' = settle d db cid pay desc"
    by simp_all
  with desc that show thesis by blast
qed

lemma settle_fields:
  "carts (settle d db cid pay desc) = carts (begin_checkout db cid pay)"
  "cart_items (settle d db cid pay desc) = cart_items db"
  "potions (settle d db cid pay desc) = map (add_sold d (select_cart_items db cid)) (potions db)"
  "potion_transactions (settle d db cid pay desc) =
     potion_transactions db @
       map (item_transaction (potion_transactions_seq db) desc) (enumerate 0 (select_cart_items db cid))"
  "potion_entries (settle d db cid pay desc) =
     potion_entries db @
       map (item_entry (potion_transactions_seq db)) (enumerate 0 (select_cart_items db cid))"
  "global_inventory_transactions (settle d db cid pay desc) =
     map (\<lambda>g. if git_id g = global_inventory_transactions_seq db
               then g\<lparr>git_description := desc\<rparr> else g) (global_inventory_transactions db) @
       [\<lparr>git_id = global_inventory_transactions_seq db, git_description = desc\<rparr>]"
  "global_inventory_entries (settle d db cid pay desc) =
     global_inventory_entries db @
       [\<lparr>change_gold = sum_list (map (line_total d db) (select_cart_items db cid)),
         gie_transaction_id = global_inventory_transactions_seq db\<rparr>]"
  by (simp_all add: settle_def insert_gold_entry_def update_description_def
        foldl_record_sale_potions foldl_record_sale_transactions foldl_record_sale_entries)

lemma num_potion_settle:
  "num_potion (settle d db cid pay desc) s = num_potion db s - sold_in (select_cart_items db cid) s"
proof -
  have "num_potion (settle d db cid pay desc) s =
        num_potion (foldl (record_sale d desc) (begin_checkout db cid pay) (select_cart_items db cid)) s"
    by (simp add: num_potion_def settle_def insert_gold_entry_def update_description_def)
  then show ?thesis
    by (simp add: num_potion_foldl_record_sale)
qed


subsection \<open>Totals and ledger rows of a checkout\<close>


lemma shop_items: "select_cart_items shop 1 = [alice_item]"
  by (simp add: select_cart_items_def shop_def alice_item_def)

lemma shop_red: "select_potion shop ''RED_POTION'' = Some red_potion"
  by (simp add: select_potion_def shop_def red_potion_def)


lemma get_cart_settled_shop: "get_cart Mon settled_shop 1 = Inr (Some alice_settled)"
  by code_simp

lemma shop_cart: "cart_id ` set (carts shop) = {1}"
  by (simp add: shop_def)

lemma line_total_alice: "line_total d shop alice_item = 150"
  by (simp add: line_total_def alice_item_def shop_red) (simp add: red_potion_def)

lemma shop_known:
  "\<forall>ci\<in>set (select_cart_items shop 1). select_potion shop (item_sku ci) \<noteq> None"
  by (simp add: shop_items) (simp add: alice_item_def shop_red)

lemma shop_has_cart: "1 \<in> cart_id ` set (carts shop)"
  by (simp add: shop_def)

lemma get_cart_shop_any_day: "get_cart d shop 1 = Inr (Some alice_staged)"
  by (cases d; code_simp)

lemma checkout_shop:
  "checkout d shop 1 pay = Inr (\<lparr>total_potions_bought = 3, total_gold_paid = 150\<rparr>,
      settle d shop 1 pay (Some alice_staged))"
  using checkout_success [OF shop_has_cart get_cart_shop_any_day shop_known, where pay = pay and d = d]
  by (simp add: shop_items line_total_alice) (simp add: alice_item_def)

subsection \<open>Checkout of an unknown cart\<close>

text \<open>
  Claim C8, as amended. A checkout on a cart id that no cart has fails with the
  \<^verbatim>\<open>AttributeError\<close> of \<^verbatim>\<open>.first().id\<close> on an empty result; nothing is committed.
  The source has no error of the kind \<open>CartNotFound\<close>.
\<close>

theorem checkout_unknown_cart_raises:
  "cid \<notin> cart_id ` set (carts db) \<Longrightarrow> checkout d db cid pay = Inl AttributeError"
  by (rule checkout_unknown_cart)

theorem checkout_unknown_cart_raises_witness:
  "1 \<notin> cart_id ` set (carts empty_shop) \<and> checkout Mon empty_shop 1 ''gold'' = Inl AttributeError"
proof -
  have "1 \<notin> cart_id ` set (carts empty_shop)"
    by (simp add: empty_shop_def)
  with checkout_unknown_cart_raises [of 1 empty_shop Mon "''gold''"] show ?thesis
    by simp
qed

theorem checkout_unknown_cart_counterexample:
  "checkout Mon empty_shop 1 ''gold'' = Inl AttributeError \<and>
   checkout Mon empty_shop 1 ''gold'' \<noteq> Inl CartNotFound"
  by (simp add: checkout_unknown_cart empty_shop_def)

subsection \<open>The description stored with the gold entry\<close>

text \<open>
  Claim C4. When a checkout returns, \<^verbatim>\<open>get_cart\<close> on the database as it was before
  the checkout returns a rendering, and this rendering is the description of the global
  transaction the checkout appends (and of any older row with the same id, if the id is
  not a key); the gold entry is appended under that transaction. The rendering of the
  database after the checkout is not what is stored.
\<close>

theorem checkout_description:
  "checkout d db cid pay = Inr (r, db') \<Longrightarrow>
   \<exists>desc. get_cart d db cid = Inr desc \<and>
     global_inventory_transactions db' =
       map (\<lambda>g. if git_id g = global_inventory_transactions_seq db
                 then g\<lparr>git_description := desc\<rparr> else g) (global_inventory_transactions db) @
         [\<lparr>git_id = global_inventory_transactions_seq db, git_description = desc\<rparr>] \<and>
     global_inventory_entries db' =
       global_inventory_entries db @
         [\<lparr>change_gold = total_gold_paid r,
           gie_transaction_id = global_inventory_transactions_seq db\<rparr>]"
proof -
  assume "checkout d db cid pay = Inr (r, db')"
  then obtain desc where "get_cart d db cid = Inr desc"
    and "r = \<lparr>total_potions_bought = sum_list (map quantity (select_cart_items db cid)),
              total_gold_paid = sum_list (map (line_total d db) (select_cart_items db cid))\<rparr>"
    and "db' = settle d db cid pay desc"
    by (rule checkout_Inr_settle)
  then show ?thesis
    by (simp add: settle_fields)
qed

lemma get_cart_after_checkout_shop:
  "get_cart Mon (settle Mon shop 1 ''credit_card'' (Some alice_staged)) 1 = Inr (Some alice_settled)"
  by code_simp

theorem checkout_description_witness:
  "\<exists>r db'. checkout Mon shop 1 ''credit_card'' = Inr (r, db') \<and>
     get_cart Mon shop 1 = Inr (Some alice_staged) \<and>
     global_inventory_transactions db' = [\<lparr>git_id = 1, git_description = Some alice_staged\<rparr>] \<and>
     global_inventory_entries db' = [\<lparr>change_gold = 150, gie_transaction_id = 1\<rparr>] \<and>
     get_cart Mon db' 1 = Inr (Some alice_settled) \<and>
     alice_settled \<noteq> alice_staged"
proof -
  let ?r = "\<lparr>total_potions_bought = 3, total_gold_paid = 150\<rparr>"
  let ?db' = "settle Mon shop 1 ''credit_card'' (Some alice_staged)"
  have co: "checkout Mon shop 1 ''credit_card'' = Inr (?r, ?db')"
    by (rule checkout_shop)
  have "global_inventory_transactions ?db' = [\<lparr>git_id = 1, git_description = Some alice_staged\<rparr>] \<and>
     global_inventory_entries ?db' = [\<lparr>change_gold = 150, gie_transaction_id = 1\<rparr>]"
    using checkout_description [OF co]
    by (simp add: get_cart_shop_any_day) (simp add: shop_def)
  moreover have "alice_settled \<noteq> alice_staged"
    by (simp add: alice_settled_def alice_staged_def)
  ultimately show ?thesis
    using co get_cart_after_checkout_shop get_cart_shop_any_day [of Mon]
    by (intro exI [where x = ?r] exI [where x = ?db']) simp
qed

lemma checkout_returns:
  assumes "cid \<in> cart_id ` set (carts db)"
    and "\<forall>ci\<in>set (select_cart_items db cid). select_potion db (item_sku ci) \<noteq> None"
  shows "\<exists>desc. get_cart d db cid = Inr desc \<and>
     checkout d db cid pay =
       Inr (\<lparr>total_potions_bought = sum_list (map quantity (select_cart_items db cid)),
             total_gold_paid = sum_list (map (line_total d db) (select_cart_items db cid))\<rparr>,
            settle d db cid pay desc)"
proof -
  from get_cart_known [OF assms(2)] obtain desc where "get_cart d db cid = Inr desc" ..
  with checkout_success [OF assms(1) this assms(2)] show ?thesis by blast
qed

lemma select_cart_in_carts:
  "select_cart db cid = Some c \<Longrightarrow> cid \<in> cart_id ` set (carts db)"
  by (auto simp: select_cart_def find_Some_iff)

lemma select_cart_settle:
  "select_cart (settle d db cid pay desc) cid' =
     map_option (\<lambda>c. if cart_id c = cid
        then c\<lparr>payment := Some pay,
               global_inventory_transaction_id := Some (global_inventory_transactions_seq db)\<rparr>
        else c) (select_cart db cid')"
proof -
  have "find (\<lambda>c. cart_id c = cid') (map (\<lambda>c. if cart_id c = cid
          then c\<lparr>payment := Some pay, global_inventory_transaction_id := Some t\<rparr> else c) cs) =
        map_option (\<lambda>c. if cart_id c = cid
          then c\<lparr>payment := Some pay, global_inventory_transaction_id := Some t\<rparr> else c)
          (find (\<lambda>c. cart_id c = cid') cs)" for cs :: "cart list" and t
    by (induction cs) auto
  then show ?thesis
    by (simp add: select_cart_def settle_fields)
qed

subsection \<open>Checkout of a settled cart\<close>

text \<open>
  Claim C2, as amended. \<^verbatim>\<open>checkout\<close> does not look at the cart's payment or
  transaction reference. On a cart that is already settled and whose items all name a
  potion it returns again: it appends one global transaction, one gold entry and, for
  each cart item, one potion transaction and one potion entry, and it replaces the cart's
  payment and transaction reference.
\<close>

theorem checkout_settled_cart_again:
  assumes "select_cart db cid = Some c"
    and "payment c \<noteq> None"
    and "global_inventory_transaction_id c \<noteq> None"
    and "\<forall>ci\<in>set (select_cart_items db cid). select_potion db (item_sku ci) \<noteq> None"
  shows "\<exists>r db'. checkout d db cid pay = Inr (r, db') \<and>
     length (global_inventory_transactions db') = length (global_inventory_transactions db) + 1 \<and>
     length (global_inventory_entries db') = length (global_inventory_entries db) + 1 \<and>
     length (potion_transactions db') =
       length (potion_transactions db) + length (select_cart_items db cid) \<and>
     length (potion_entries db') = length (potion_entries db) + length (select_cart_items db cid) \<and>
     select_cart db' cid =
       Some (c\<lparr>payment := Some pay,
               global_inventory_transaction_id := Some (global_inventory_transactions_seq db)\<rparr>)"
proof -
  from checkout_returns [OF select_cart_in_carts [OF assms(1)] assms(4), of d pay]
  obtain desc where co: "checkout d db cid pay =
       Inr (\<lparr>total_potions_bought = sum_list (map quantity (select_cart_items db cid)),
             total_gold_paid = sum_list (map (line_total d db) (select_cart_items db cid))\<rparr>,
            settle d db cid pay desc)"
    by blast
  have "cart_id c = cid"
    using assms(1) by (auto simp: select_cart_def find_Some_iff)
  then have "select_cart (settle d db cid pay desc) cid =
       Some (c\<lparr>payment := Some pay,
               global_inventory_transaction_id := Some (global_inventory_transactions_seq db)\<rparr>)"
    by (simp add: select_cart_settle assms(1))
  with co show ?thesis
    by (simp add: settle_fields)
qed

lemma settled_shop_cart:
  "select_cart settled_shop 1 =
     Some \<lparr>cart_id = 1, customer = ''Alice'', payment = Some ''credit_card'',
           global_inventory_transaction_id = Some 1\<rparr>"
  by (simp add: select_cart_def settled_shop_def)

lemma settled_shop_items: "select_cart_items settled_shop 1 = [alice_item]"
  by (simp add: select_cart_items_def settled_shop_def alice_item_def)

lemma settled_shop_known:
  "\<forall>ci\<in>set (select_cart_items settled_shop 1). select_potion settled_shop (item_sku ci) \<noteq> None"
  by (simp add: settled_shop_items)
     (simp add: alice_item_def select_potion_def settled_shop_def sold_red_potion_def)

lemma settled_shop_ledger:
  "length (global_inventory_transactions settled_shop) = 1"
  "length (global_inventory_entries settled_shop) = 1"
  "length (potion_transactions settled_shop) = 1"
  "length (potion_entries settled_shop) = 1"
  "global_inventory_transactions_seq settled_shop = 2"
  by (simp_all add: settled_shop_def)

theorem checkout_settled_cart_again_witness:
  "\<exists>r db'. checkout Tue settled_shop 1 ''gold'' = Inr (r, db') \<and>
     length (global_inventory_transactions db') = 2 \<and>
     length (global_inventory_entries db') = 2 \<and>
     length (potion_transactions db') = 2 \<and>
     length (potion_entries db') = 2 \<and>
     select_cart db' 1 =
       Some \<lparr>cart_id = 1, customer = ''Alice'', payment = Some ''gold'',
             global_inventory_transaction_id = Some 2\<rparr>"
  using checkout_settled_cart_again [OF settled_shop_cart _ _ settled_shop_known, of Tue "''gold''"]
  by (simp add: settled_shop_items settled_shop_ledger numeral_2_eq_2)

lemma settle_counters:
  "carts_seq (settle d db cid pay desc) = carts_seq db"
  "cart_items_seq (settle d db cid pay desc) = cart_items_seq db"
  "potion_transactions_seq (settle d db cid pay desc) =
     potion_transactions_seq db + int (length (select_cart_items db cid))"
  "global_inventory_transactions_seq (settle d db cid pay desc) =
     global_inventory_transactions_seq db + 1"
  by (simp_all add: settle_def insert_gold_entry_def update_description_def)

lemma settle_shop: "settle Mon shop 1 ''credit_card'' (Some alice_staged) = settled_shop"
proof -
  have sold: "add_sold Mon [alice_item] red_potion = sold_red_potion"
    by (simp add: add_sold_def sold_in_def alice_item_def red_potion_def sold_red_potion_def fun_eq_iff)
  have tables: "potions shop = [red_potion]" "cart_items shop = [alice_item]"
    "carts shop = [\<lparr>cart_id = 1, customer = ''Alice'', payment = None,
                global_inventory_transaction_id = None\<rparr>]"
    "potion_transactions shop = []" "potion_entries shop = []"
    "global_inventory_transactions shop = []" "global_inventory_entries shop = []"
    "carts_seq shop = 2" "cart_items_seq shop = 2" "potion_transactions_seq shop = 1"
    "global_inventory_transactions_seq shop = 1"
    by (simp_all add: shop_def)
  show ?thesis
    by (rule database.equality)
       (simp_all add: settle_fields settle_counters shop_items line_total_alice tables sold
          item_transaction_def item_entry_def settled_shop_def, simp add: alice_item_def)
qed

lemma checkout_shop_settled:
  "checkout Mon shop 1 ''credit_card'' =
     Inr (\<lparr>total_potions_bought = 3, total_gold_paid = 150\<rparr>, settled_shop)"
  by (simp add: checkout_shop settle_shop)

theorem checkout_settled_cart_counterexample:
  "checkout Mon shop 1 ''credit_card'' =
     Inr (\<lparr>total_potions_bought = 3, total_gold_paid = 150\<rparr>, settled_shop) \<and>
   map payment (carts settled_shop) = [Some ''credit_card''] \<and>
   map global_inventory_transaction_id (carts settled_shop) = [Some 1] \<and>
   checkout Tue settled_shop 1 ''gold'' \<noteq> Inl CartAlreadySettled \<and>
   (\<exists>r db'. checkout Tue settled_shop 1 ''gold'' = Inr (r, db') \<and>
      length (global_inventory_transactions db') =
        Suc (length (global_inventory_transactions settled_shop)) \<and>
      length (global_inventory_entries db') = Suc (length (global_inventory_entries settled_shop)) \<and>
      length (potion_transactions db') = Suc (length (potion_transactions settled_shop)) \<and>
      length (potion_entries db') = Suc (length (potion_entries settled_shop)))"
proof -
  from checkout_returns [OF select_cart_in_carts [OF settled_shop_cart] settled_shop_known,
    of Tue "''gold''"]
  obtain r desc where co: "checkout Tue settled_shop 1 ''gold'' = Inr (r, settle Tue settled_shop 1 ''gold'' desc)"
    by blast
  then show ?thesis
    by (simp add: settle_fields settled_shop_items settled_shop_ledger checkout_shop_settled)
       (simp add: settled_shop_def)
qed

subsection \<open>Conservation of stock\<close>

lemma settle_preserves:
  "cart_id ` set (carts (settle d db cid pay desc)) = cart_id ` set (carts db)"
  "select_cart_items (settle d db cid pay desc) cid' = select_cart_items db cid'"
  "(select_potion (settle d db cid pay desc) s = None) = (select_potion db s = None)"
proof -
  have "map cart_id (map (\<lambda>c. if cart_id c = cid
          then c\<lparr>payment := Some pay, global_inventory_transaction_id := Some t\<rparr> else c) cs) =
        map cart_id cs" for cs :: "cart list" and t
    by (induction cs) auto
  then have "map cart_id (carts (settle d db cid pay desc)) = map cart_id (carts db)"
    by (simp only: settle_fields begin_checkout_fields)
  then show "cart_id ` set (carts (settle d db cid pay desc)) = cart_id ` set (carts db)"
    by (simp only: set_map [symmetric])
  show "select_cart_items (settle d db cid pay desc) cid' = select_cart_items db cid'"
    by (simp add: select_cart_items_def settle_fields)
  have "(find (\<lambda>p. sku p = s) (map (add_sold d items) ps) = None) =
        (find (\<lambda>p. sku p = s) ps = None)" for items ps
    by (induction ps) (auto simp: add_sold_def)
  then show "(select_potion (settle d db cid pay desc) s = None) = (select_potion db s = None)"
    by (simp add: select_potion_def settle_fields)
qed

lemma checkouts_stock:
  "checkouts db cs = Inr db' \<Longrightarrow>
   cart_items db' = cart_items db \<and>
   num_potion db' s =
     num_potion db s - sum_list (map (\<lambda>(d, cid, pay). sold_in (select_cart_items db cid) s) cs)"
proof (induction cs arbitrary: db)
  case Nil
  then show ?case by simp
next
  case (Cons c cs)
  obtain d cid pay where c: "c = (d, cid, pay)"
    by (cases c)
  from Cons.prems c obtain r db1 where co: "checkout d db cid pay = Inr (r, db1)"
    and rest: "checkouts db1 cs = Inr db'"
    by (auto split: sum.splits)
  from co obtain desc where db1: "db1 = settle d db cid pay desc"
    by (rule checkout_Inr_settle)
  have same: "select_cart_items db1 = select_cart_items db"
    by (simp add: fun_eq_iff db1 settle_preserves)
  from Cons.IH [OF rest] show ?case
    by (simp add: c same) (simp add: db1 settle_fields num_potion_settle)
qed

lemma checkouts_return:
  "\<forall>(d, cid, pay)\<in>set cs. cid \<in> cart_id ` set (carts db) \<Longrightarrow>
   \<forall>ci\<in>set (cart_items db). select_potion db (item_sku ci) \<noteq> None \<Longrightarrow>
   \<exists>db'. checkouts db cs = Inr db'"
proof (induction cs arbitrary: db)
  case Nil
  then show ?case by simp
next
  case (Cons c cs)
  obtain d cid pay where c: "c = (d, cid, pay)"
    by (cases c)
  have "cid \<in> cart_id ` set (carts db)"
    using Cons.prems(1) c by simp
  moreover have "\<forall>ci\<in>set (select_cart_items db cid). select_potion db (item_sku ci) \<noteq> None"
    using Cons.prems(2) by (simp add: select_cart_items_def)
  ultimately obtain desc r where co: "checkout d db cid pay = Inr (r, settle d db cid pay desc)"
    using checkout_returns [of cid db d pay] by blast
  have "\<forall>(d', cid', pay')\<in>set cs. cid' \<in> cart_id ` set (carts (settle d db cid pay desc))"
    using Cons.prems(1) by (simp add: settle_preserves)
  moreover have "\<forall>ci\<in>set (cart_items (settle d db cid pay desc)).
      select_potion (settle d db cid pay desc) (item_sku ci) \<noteq> None"
    using Cons.prems(2) by (simp add: settle_preserves settle_fields)
  ultimately have "\<exists>db'. checkouts (settle d db cid pay desc) cs = Inr db'"
    by (rule Cons.IH)
  with co c show ?case by simp
qed

text \<open>
  Claim C7. A run of checkouts on carts that exist, in a shop whose cart items all name
  a potion, returns. Whenever a run of checkouts returns and the stock of a sku (the sum
  of its ledger entries) was zero before, the stock after the run is minus the quantity
  of the sku in the checked-out carts, summed over the checkouts of the run.
\<close>

theorem checkouts_conserve_stock:
  "((\<forall>(d, cid, pay)\<in>set cs. cid \<in> cart_id ` set (carts db)) \<and>
    (\<forall>ci\<in>set (cart_items db). select_potion db (item_sku ci) \<noteq> None)
      \<longrightarrow> (\<exists>db'. checkouts db cs = Inr db'))
   \<and>
   (\<forall>db'. num_potion db s = 0 \<and> checkouts db cs = Inr db' \<longrightarrow>
      num_potion db' s =
        - sum_list (map (\<lambda>(d, cid, pay). sold_in (select_cart_items db cid) s) cs))"
  using checkouts_return [of cs db] checkouts_stock [of db cs _ s] by simp

theorem checkouts_conserve_stock_witness:
  "\<exists>db'. checkouts shop [(Mon, 1, ''credit_card''), (Tue, 1, ''gold'')] = Inr db' \<and>
     num_potion shop ''RED_POTION'' = 0 \<and>
     num_potion db' ''RED_POTION'' = - 6"
proof -
  note fact = checkouts_conserve_stock
    [of "[(Mon, 1, ''credit_card''), (Tue, 1, ''gold'')]" shop "''RED_POTION''"]
  have "(\<forall>(d, cid, pay)\<in>set [(Mon, 1, ''credit_card''), (Tue, 1 :: int, ''gold'')].
           cid \<in> cart_id ` set (carts shop)) \<and>
        (\<forall>ci\<in>set (cart_items shop). select_potion shop (item_sku ci) \<noteq> None)"
    using shop_known by (simp add: shop_has_cart shop_items) (simp add: shop_def)
  with fact obtain db' where
    run: "checkouts shop [(Mon, 1, ''credit_card''), (Tue, 1, ''gold'')] = Inr db'"
    by blast
  have zero: "num_potion shop ''RED_POTION'' = 0"
    by (simp add: num_potion_def shop_def)
  have "sold_in (select_cart_items shop 1) ''RED_POTION'' = 3"
    by (simp add: shop_items sold_in_def alice_item_def)
  with fact run zero have "num_potion db' ''RED_POTION'' = - 6"
    by simp
  with run zero show ?thesis by blast
qed

subsection \<open>Rendering\<close>

lemma potion_phrase_known:
  "select_potion db (item_sku ci) \<noteq> None \<Longrightarrow> potion_phrase d db ci \<noteq> []"
  by (auto simp: potion_phrase_def item_phrase_def)

lemma get_cart_with_items:
  assumes "select_cart db cid = Some c"
    and "select_cart_items db cid \<noteq> []"
    and "\<forall>ci\<in>set (select_cart_items db cid). select_potion db (item_sku ci) \<noteq> None"
  shows "get_cart d db cid = Inr (Some (cart_heading c @ item_list d db cid))"
proof -
  from assms(2) obtain ci where "ci \<in> set (select_cart_items db cid)"
    by (cases "select_cart_items db cid") auto
  with assms(3) have "concat (map (potion_phrase d db) (select_cart_items db cid)) \<noteq> []"
    by (auto simp: potion_phrase_known)
  then have "butlast (cart_heading c @ concat (map (potion_phrase d db) (select_cart_items db cid))) =
      cart_heading c @ butlast (concat (map (potion_phrase d db) (select_cart_items db cid)))"
    by (simp only: butlast_append if_False)
  then show ?thesis
    by (simp add: get_cart_def assms(1,2) render_items_known [OF assms(3)] item_list_def)
qed

lemma get_cart_no_items:
  "select_cart db cid = Some c \<Longrightarrow> select_cart_items db cid = [] \<Longrightarrow> get_cart d db cid = Inr None"
  by (simp add: get_cart_def)

lemma phrases_distinct:
  "not_created_phrase (cart_id c) \<noteq> staged_phrase c @ rest"
  "not_created_phrase (cart_id c) \<noteq> settled_phrase c pay @ rest"
  "staged_phrase c @ rest \<noteq> settled_phrase c pay @ rest'"
  by (simp_all add: not_created_phrase_def staged_phrase_def settled_phrase_def)

text \<open>
  Claim C10. For a cart id that a row of \<^verbatim>\<open>carts\<close> has and no row of
  \<^verbatim>\<open>cart_items\<close> has, \<^verbatim>\<open>get_cart\<close> returns Python \<^verbatim>\<open>None\<close>: no message,
  in particular none of the three phrasings.
\<close>

theorem get_cart_without_items:
  "cid \<in> cart_id ` set (carts db) \<Longrightarrow> \<forall>i\<in>set (cart_items db). item_cart_id i \<noteq> cid \<Longrightarrow>
   get_cart d db cid = Inr None \<and> (\<forall>message. get_cart d db cid \<noteq> Inr (Some message))"
proof -
  assume "cid \<in> cart_id ` set (carts db)" and "\<forall>i\<in>set (cart_items db). item_cart_id i \<noteq> cid"
  then have "select_cart db cid \<noteq> None" and "select_cart_items db cid = []"
    by (auto simp: select_cart_def select_cart_items_def find_None_iff filter_empty_conv)
  then show ?thesis
    by (auto simp: get_cart_no_items)
qed

theorem get_cart_without_items_witness:
  "1 \<in> cart_id ` set (carts empty_cart_shop) \<and> cart_items empty_cart_shop = [] \<and>
   get_cart Mon empty_cart_shop 1 = Inr None"
  using get_cart_without_items [of 1 empty_cart_shop Mon]
  by (simp add: empty_cart_shop_def)

text \<open>
  Claim C9, as amended. \<^verbatim>\<open>get_cart\<close> returns the not-created phrasing for a cart id
  that no cart has. For a cart with at least one item row, all naming a potion, it returns
  the staged phrasing followed by the item list when the payment is \<^verbatim>\<open>NULL\<close>, and the
  settled phrasing, which holds the payment string, followed by the item list when the
  payment is a non-empty string. For one cart the three phrasings are different texts.
\<close>

theorem get_cart_phrasing:
  "(select_cart db cid = None \<longrightarrow> get_cart d db cid = Inr (Some (not_created_phrase cid))) \<and>
   (\<forall>c. select_cart db cid = Some c \<and> select_cart_items db cid \<noteq> [] \<and>
        (\<forall>ci\<in>set (select_cart_items db cid). select_potion db (item_sku ci) \<noteq> None) \<longrightarrow>
        (payment c = None \<longrightarrow>
           get_cart d db cid = Inr (Some (staged_phrase c @ item_list d db cid))) \<and>
        (\<forall>pay. payment c = Some pay \<and> pay \<noteq> [] \<longrightarrow>
           get_cart d db cid = Inr (Some (settled_phrase c pay @ item_list d db cid)))) \<and>
   (\<forall>c pay rest rest'.
        not_created_phrase (cart_id c) \<noteq> staged_phrase c @ rest \<and>
        not_created_phrase (cart_id c) \<noteq> settled_phrase c pay @ rest \<and>
        staged_phrase c @ rest \<noteq> settled_phrase c pay @ rest')"
proof (intro conjI allI impI)
  assume "select_cart db cid = None"
  then show "get_cart d db cid = Inr (Some (not_created_phrase cid))"
    by (simp add: get_cart_def)
next
  fix c
  assume c: "select_cart db cid = Some c \<and> select_cart_items db cid \<noteq> [] \<and>
        (\<forall>ci\<in>set (select_cart_items db cid). select_potion db (item_sku ci) \<noteq> None)"
  then have render: "get_cart d db cid = Inr (Some (cart_heading c @ item_list d db cid))"
    by (simp add: get_cart_with_items)
  {
    assume "payment c = None"
    then show "get_cart d db cid = Inr (Some (staged_phrase c @ item_list d db cid))"
      by (simp add: render cart_heading_def)
  next
    fix pay
    assume "payment c = Some pay \<and> pay \<noteq> []"
    then show "get_cart d db cid = Inr (Some (settled_phrase c pay @ item_list d db cid))"
      by (simp add: render cart_heading_def)
  }
qed (rule phrases_distinct)+

lemma shop_cart_row:
  "select_cart shop 1 =
     Some \<lparr>cart_id = 1, customer = ''Alice'', payment = None,
           global_inventory_transaction_id = None\<rparr>"
  by (simp add: select_cart_def shop_def)

lemma example_renderings:
  "not_created_phrase 1 = ''Cart #1 has not yet been created.''"
  "staged_phrase \<lparr>cart_id = 1, customer = ''Alice'', payment = None,
      global_inventory_transaction_id = None\<rparr> @ item_list Mon shop 1 = alice_staged"
  "settled_phrase \<lparr>cart_id = 1, customer = ''Alice'', payment = Some ''credit_card'',
      global_inventory_transaction_id = Some 1\<rparr> ''credit_card'' @ item_list Mon settled_shop 1
     = alice_settled"
  by code_simp+

theorem get_cart_phrasing_witness:
  "get_cart Mon empty_shop 1 = Inr (Some ''Cart #1 has not yet been created.'') \<and>
   get_cart Mon shop 1 = Inr (Some alice_staged) \<and>
   get_cart Mon settled_shop 1 = Inr (Some alice_settled)"
proof -
  have "select_cart empty_shop 1 = None"
    by (simp add: select_cart_def empty_shop_def)
  with get_cart_phrasing [of empty_shop 1 Mon]
  have a: "get_cart Mon empty_shop 1 = Inr (Some ''Cart #1 has not yet been created.'')"
    by (simp add: example_renderings)
  from get_cart_phrasing [of shop 1 Mon] shop_known
  have b: "get_cart Mon shop 1 = Inr (Some alice_staged)"
    by (simp add: shop_cart_row shop_items example_renderings)
  from get_cart_phrasing [of settled_shop 1 Mon] settled_shop_known
  have c: "get_cart Mon settled_shop 1 = Inr (Some alice_settled)"
    by (simp add: settled_shop_cart settled_shop_items example_renderings)
  from a b c show ?thesis by simp
qed

lemma get_cart_after_unnamed_payment:
  "get_cart Mon (settle Mon shop 1 [] (Some alice_staged)) 1 =
     Inr (Some ''Cart #1: Alice is seeking to buy: 3 RED_POTION ([100, 0, 0, 0]) for 150 gold (-3 remaining).'')"
  by code_simp

theorem get_cart_phrasing_counterexample:
  "(\<exists>r db'. checkout Mon empty_cart_shop 1 ''gold'' = Inr (r, db') \<and>
      map payment (carts db') = [Some ''gold''] \<and>
      get_cart Mon db' 1 = Inr None) \<and>
   (\<exists>r db'. checkout Mon shop 1 [] = Inr (r, db') \<and>
      map payment (carts db') = [Some []] \<and>
      get_cart Mon db' 1 =
        Inr (Some ''Cart #1: Alice is seeking to buy: 3 RED_POTION ([100, 0, 0, 0]) for 150 gold (-3 remaining).''))"
proof
  have cart: "select_cart empty_cart_shop 1 =
     Some \<lparr>cart_id = 1, customer = ''Alice'', payment = None,
           global_inventory_transaction_id = None\<rparr>"
    by (simp add: select_cart_def empty_cart_shop_def)
  have items: "select_cart_items empty_cart_shop 1 = []"
    by (simp add: select_cart_items_def empty_cart_shop_def)
  from checkout_returns [OF select_cart_in_carts [OF cart], of Mon "''gold''"]
  obtain r desc where
    co: "checkout Mon empty_cart_shop 1 ''gold'' = Inr (r, settle Mon empty_cart_shop 1 ''gold'' desc)"
    by (auto simp: items)
  have "get_cart Mon (settle Mon empty_cart_shop 1 ''gold'' desc) 1 = Inr None"
    by (rule get_cart_no_items [where c = "\<lparr>cart_id = 1, customer = ''Alice'',
          payment = Some ''gold'', global_inventory_transaction_id = Some 1\<rparr>"])
       (simp_all add: select_cart_settle cart settle_preserves items, simp add: empty_cart_shop_def)
  moreover have "map payment (carts (settle Mon empty_cart_shop 1 ''gold'' desc)) = [Some ''gold'']"
    by (simp add: settle_fields) (simp add: empty_cart_shop_def)
  ultimately show "\<exists>r db'. checkout Mon empty_cart_shop 1 ''gold'' = Inr (r, db') \<and>
      map payment (carts db') = [Some ''gold''] \<and> get_cart Mon db' 1 = Inr None"
    using co
    by (intro exI [where x = r] exI [where x = "settle Mon empty_cart_shop 1 ''gold'' desc"]) simp
next
  have "map payment (carts (settle Mon shop 1 [] (Some alice_staged))) = [Some []]"
    by (simp add: settle_fields) (simp add: shop_def)
  with checkout_shop [of Mon "[]"] get_cart_after_unnamed_payment
  show "\<exists>r db'. checkout Mon shop 1 [] = Inr (r, db') \<and>
      map payment (carts db') = [Some []] \<and>
      get_cart Mon db' 1 =
        Inr (Some ''Cart #1: Alice is seeking to buy: 3 RED_POTION ([100, 0, 0, 0]) for 150 gold (-3 remaining).'')"
    by (intro exI [where x = "\<lparr>total_potions_bought = 3, total_gold_paid = 150\<rparr>"]
          exI [where x = "settle Mon shop 1 [] (Some alice_staged)"]) simp
qed

subsection \<open>Setting an item's quantity twice\<close>

lemma set_item_quantity_appends:
  "select_cart_items (snd (set_item_quantity db cid s q)) cid =
     select_cart_items db cid @
       [\<lparr>items_id = cart_items_seq db, item_cart_id = cid, item_sku = s, quantity = q\<rparr>]"
  by (simp add: set_item_quantity_def select_cart_items_def)

lemma twice_set_shop_items:
  "select_cart_items twice_set_shop 1 =
     [\<lparr>items_id = 1, item_cart_id = 1, item_sku = ''RED_POTION'', quantity = 3\<rparr>,
      \<lparr>items_id = 2, item_cart_id = 1, item_sku = ''RED_POTION'', quantity = 5\<rparr>]"
  by (simp add: twice_set_shop_def set_item_quantity_def create_cart_def select_cart_items_def
        empty_shop_def)

lemma twice_set_shop_tables:
  "carts twice_set_shop =
     [\<lparr>cart_id = 1, customer = ''Alice'', payment = None, global_inventory_transaction_id = None\<rparr>]"
  "potions twice_set_shop = [red_potion]"
  by (simp_all add: twice_set_shop_def set_item_quantity_def create_cart_def empty_shop_def)

text \<open>
  Claim C3, on the source. After \<^verbatim>\<open>set_item_quantity\<close> with 3 and then with 5 for the
  same sku of one cart, the cart has two rows for the sku, with the quantities 3 and 5,
  and its checkout buys 8 potions for 400 gold: the second call did not replace the
  quantity of the first.
\<close>

theorem set_item_quantity_twice_keeps_both:
  "map (\<lambda>i. (item_sku i, quantity i)) (select_cart_items twice_set_shop 1) =
     [(''RED_POTION'', 3), (''RED_POTION'', 5)] \<and>
   (\<exists>r db'. checkout Mon twice_set_shop 1 ''gold'' = Inr (r, db') \<and>
      total_potions_bought r = 8 \<and> total_gold_paid r = 400)"
proof
  show "map (\<lambda>i. (item_sku i, quantity i)) (select_cart_items twice_set_shop 1) =
     [(''RED_POTION'', 3), (''RED_POTION'', 5)]"
    by (simp add: twice_set_shop_items)
  have red: "select_potion twice_set_shop ''RED_POTION'' = Some red_potion"
    by (simp add: select_potion_def twice_set_shop_tables red_potion_def)
  have "1 \<in> cart_id ` set (carts twice_set_shop)"
    by (simp add: twice_set_shop_tables)
  moreover have "\<forall>ci\<in>set (select_cart_items twice_set_shop 1).
      select_potion twice_set_shop (item_sku ci) \<noteq> None"
    by (simp add: twice_set_shop_items red)
  ultimately obtain desc where "checkout Mon twice_set_shop 1 ''gold'' =
       Inr (\<lparr>total_potions_bought = sum_list (map quantity (select_cart_items twice_set_shop 1)),
             total_gold_paid =
               sum_list (map (line_total Mon twice_set_shop) (select_cart_items twice_set_shop 1))\<rparr>,
            settle Mon twice_set_shop 1 ''gold'' desc)"
    using checkout_returns [of 1 twice_set_shop Mon "''gold''"] by blast
  then show "\<exists>r db'. checkout Mon twice_set_shop 1 ''gold'' = Inr (r, db') \<and>
      total_potions_bought r = 8 \<and> total_gold_paid r = 400"
    by (simp add: twice_set_shop_items line_total_def red) (simp add: red_potion_def)
qed

subsection \<open>Pages of a search\<close>

lemma collect_results_take:
  "length acc \<le> 5 \<Longrightarrow> collect_results items acc = acc @ take (5 - length acc) items"
proof (induction items arbitrary: acc)
  case Nil
  then show ?case by simp
next
  case (Cons item items)
  show ?case
  proof (cases "length acc < 5")
    case True
    then have "collect_results (item # items) acc = (acc @ [item]) @ take (5 - length (acc @ [item])) items"
      using Cons.IH [of "acc @ [item]"] by simp
    also have "\<dots> = acc @ take (5 - length acc) (item # items)"
      using True by (simp add: take_Cons')
    finally show ?thesis .
  next
    case False
    with Cons.prems have "length acc = 5" by simp
    then show ?thesis
      using Cons.IH [of acc] by simp
  qed
qed

lemma search_orders_page:
  assumes "search_page = [] \<and> n = 0 \<or> search_page \<noteq> [] \<and> py_int search_page = Some n"
    and "0 \<le> n" and "n \<le> 9223372036854775807"
  shows "search_orders matching search_page =
     Inr \<lparr>previous = (if n - 5 < 0 then [] else str_int (n - 5)),
          next = (if nat n + 6 \<le> length matching then str_int (n + 5) else []),
          results = take 5 (drop (nat n) matching)\<rparr>"
proof -
  have cur: "(if search_page = [] then Some 0 else py_int search_page) = Some n"
    using assms(1) by auto
  have "take 5 (take 6 xs) = take 5 xs" for xs :: "order_row list"
    by (simp add: min_def)
  moreover have "(length (take 6 (drop (nat n) matching)) < 6) = (\<not> nat n + 6 \<le> length matching)"
    by auto
  ultimately show ?thesis
    using assms(2,3)
    by (simp add: search_orders_def cur collect_results_take Let_def del: length_take take_take)
qed

lemma cursors:
  "py_int ''5'' = Some 5" "py_int ''10'' = Some 10"
  "str_int 0 = ''0''" "str_int 5 = ''5''" "str_int 10 = ''10''" "str_int 15 = ''15''"
  by code_simp+

text \<open>
  Claim C5, as amended. For a cursor that is empty or reads as an integer \<open>n\<close> from
  0 up to the largest offset the database takes, a search returns the five rows from
  offset \<open>n\<close> (fewer at the end), \<open>next\<close> is \<open>n + 5\<close> as a string exactly when a
  sixth row exists from offset \<open>n\<close> and is empty otherwise, and \<open>previous\<close> is
  \<open>n - 5\<close> as a string when that is not negative and is empty otherwise. Over twelve
  matching rows the searches at the cursors \<open>''''\<close>, \<open>''5''\<close>, \<open>''10''\<close> return pages of
  5, 5 and 2 rows with the next cursors \<open>''5''\<close>, \<open>''10''\<close>, \<open>''''\<close> and the previous
  cursors \<open>''''\<close>, \<open>''0''\<close>, \<open>''5''\<close>.
\<close>

theorem search_orders_pages:
  "(\<forall>n. (search_page = [] \<and> n = 0 \<or> search_page \<noteq> [] \<and> py_int search_page = Some n) \<and>
        0 \<le> n \<and> n \<le> 9223372036854775807 \<longrightarrow>
        search_orders matching search_page =
          Inr \<lparr>previous = (if n - 5 < 0 then [] else str_int (n - 5)),
               next = (if nat n + 6 \<le> length matching then str_int (n + 5) else []),
               results = take 5 (drop (nat n) matching)\<rparr>) \<and>
   (length matching = 12 \<longrightarrow>
      search_orders matching [] =
        Inr \<lparr>previous = [], next = ''5'', results = take 5 matching\<rparr> \<and>
      search_orders matching ''5'' =
        Inr \<lparr>previous = ''0'', next = ''10'', results = take 5 (drop 5 matching)\<rparr> \<and>
      search_orders matching ''10'' =
        Inr \<lparr>previous = ''5'', next = [], results = drop 10 matching\<rparr> \<and>
      length (take 5 matching) = 5 \<and> length (take 5 (drop 5 matching)) = 5 \<and>
      length (drop 10 matching) = 2)"
proof (intro conjI allI impI)
  fix n
  assume "(search_page = [] \<and> n = 0 \<or> search_page \<noteq> [] \<and> py_int search_page = Some n) \<and>
        0 \<le> n \<and> n \<le> 9223372036854775807"
  then show "search_orders matching search_page =
          Inr \<lparr>previous = (if n - 5 < 0 then [] else str_int (n - 5)),
               next = (if nat n + 6 \<le> length matching then str_int (n + 5) else []),
               results = take 5 (drop (nat n) matching)\<rparr>"
    by (intro search_orders_page) simp_all
next
  assume len: "length matching = 12"
  show "search_orders matching [] = Inr \<lparr>previous = [], next = ''5'', results = take 5 matching\<rparr>"
    using search_orders_page [of "[]" 0 matching] len by (simp add: cursors)
  show "search_orders matching ''5'' =
        Inr \<lparr>previous = ''0'', next = ''10'', results = take 5 (drop 5 matching)\<rparr>"
    using search_orders_page [of "''5''" 5 matching] len by (simp add: cursors)
  show "search_orders matching ''10'' = Inr \<lparr>previous = ''5'', next = [], results = drop 10 matching\<rparr>"
    using search_orders_page [of "''10''" 10 matching] len by (simp add: cursors)
  show "length (take 5 matching) = 5" "length (take 5 (drop 5 matching)) = 5"
    "length (drop 10 matching) = 2"
    using len by simp_all
qed

theorem search_orders_pages_witness:
  "length twelve_rows = 12 \<and>
   map_sum id (\<lambda>r. (previous r, next r, map line_item_id (results r))) (search_orders twelve_rows []) =
     Inr ([], ''5'', [1, 2, 3, 4, 5]) \<and>
   map_sum id (\<lambda>r. (previous r, next r, map line_item_id (results r))) (search_orders twelve_rows ''5'') =
     Inr (''0'', ''10'', [6, 7, 8, 9, 10]) \<and>
   map_sum id (\<lambda>r. (previous r, next r, map line_item_id (results r))) (search_orders twelve_rows ''10'') =
     Inr (''5'', [], [11, 12])"
proof -
  have len: "length twelve_rows = 12"
    by (simp add: twelve_rows_def)
  have ids: "map line_item_id twelve_rows = [1, 2, 3, 4, 5, 6, 7, 8, 9, 10, 11, 12]"
    by (simp add: twelve_rows_def upt_rec [of _ 13] o_def)
  have "map line_item_id (take 5 twelve_rows) = [1, 2, 3, 4, 5]"
    "map line_item_id (take 5 (drop 5 twelve_rows)) = [6, 7, 8, 9, 10]"
    "map line_item_id (drop 10 twelve_rows) = [11, 12]"
    by (simp_all add: ids take_map [symmetric] drop_map [symmetric])
  with search_orders_pages [of "[]" twelve_rows] len show ?thesis
    by (simp add: cursors)
qed

theorem search_orders_pages_counterexample:
  "length twelve_rows = 12 \<and>
   map_sum id previous (search_orders twelve_rows ''5'') = Inr ''0'' \<and>
   map_sum id previous (search_orders twelve_rows ''5'') \<noteq> Inr ''5'' \<and>
   map_sum id previous (search_orders twelve_rows ''10'') = Inr ''5'' \<and>
   map_sum id previous (search_orders twelve_rows ''10'') \<noteq> Inr ''10''"
  using search_orders_page [of "''5''" 5 twelve_rows] search_orders_page [of "''10''" 10 twelve_rows]
  by (simp add: cursors twelve_rows_def)

subsection \<open>The catalog\<close>





end
